theory Spec2Isabelle
  imports Main "HOL-Library.Word"
begin

section \<open>The k8s\_cache plugin: early and late cache tiers\<close>

text \<open>
  A shallow embedding of the Go package \<^verbatim>\<open>cache\<close> of the k8s\_cache CoreDNS plugin:
  the file declaring \<^verbatim>\<open>type Cache struct\<close> (functions \<^verbatim>\<open>New\<close>, \<^verbatim>\<open>copyToLate\<close>,
  \<^verbatim>\<open>getEarly\<close>, \<^verbatim>\<open>getLate\<close>, \<^verbatim>\<open>NeedEarlyRefresh\<close>) and \<^verbatim>\<open>k8sapi.go\<close>
  (\<^verbatim>\<open>getEarlyRefreshIPs\<close>). The cache backend (\<^verbatim>\<open>CacheBackend\<close>, \<^verbatim>\<open>item\<close>, \<^verbatim>\<open>hash\<close>,
  \<^verbatim>\<open>computeTTL\<close>, the response writer) lies outside these files; what the functions
  above need of it is either a parameter or modelled from the specification, and
  marked so.

  The embedding is sequential: one call runs at a time. The Go code runs one goroutine
  per query and relies on the locking inside the stores.
\<close>

subsection \<open>Machine types\<close>

type_synonym key = "64 word"
  \<comment> \<open>\<^verbatim>\<open>uint64\<close>: the cache key\<close>

type_synonym duration = "64 word"
  \<comment> \<open>\<^verbatim>\<open>time.Duration\<close>: an \<^verbatim>\<open>int64\<close> count of nanoseconds, read with \<open>sint\<close>;
      subtraction wraps as Go's does\<close>

type_synonym time = int
  \<comment> \<open>\<^verbatim>\<open>time.Time\<close>: an instant, in nanoseconds since a fixed epoch\<close>

type_synonym ref = nat
  \<comment> \<open>\<^verbatim>\<open>*item\<close>: the address of an item object, an index into the heap of items\<close>

datatype panic = NilDereference
  \<comment> \<open>Go's run-time panic on a nil pointer or nil interface\<close>

subsection \<open>Items\<close>

text \<open>
  A resource record, as the specification takes it from the message object: name, type,
  class, TTL and rdata. For a signature record, \<open>rr_validity\<close> is the start and the
  end of the signature's validity.
\<close>

record rr =
  rr_name :: string
  rr_type :: "16 word"
  rr_class :: "16 word"
  rr_ttl :: "32 word"
  rr_rdata :: string
  rr_validity :: "(time \<times> time) option"

text \<open>
  Modelled from the spec: \<^verbatim>\<open>type item struct\<close>, whose declaration lies outside the
  files covered here. These files read the fields \<^verbatim>\<open>Rcode\<close>, \<^verbatim>\<open>origTTL\<close> (a \<^verbatim>\<open>uint32\<close>) and
  \<^verbatim>\<open>wildcard\<close>; the others are the attributes the specification lists for an Item: the
  header flags to replay (authenticated data, recursion available, checking disabled),
  the answer, authority and additional sections as stored, and the wall-clock time the
  item was stored.
\<close>

record item =
  Rcode :: int
  flag_AD :: bool
  flag_RA :: bool
  flag_CD :: bool
  answer_section :: "rr list"
  authority_section :: "rr list"
  additional_section :: "rr list"
  wildcard :: string
  origTTL :: "32 word"
  stored :: time

definition RcodeSuccess :: int where
  "RcodeSuccess = 0"


text \<open>
  Modelled from the spec: the method \<^verbatim>\<open>(i *item) ttl(now)\<close>, declared with the item.
  The specification gives \<open>ttlRemaining(item, now) = origTTL - floor(now - storedAt)\<close>,
  in seconds.
\<close>

definition ttl :: "item \<Rightarrow> time \<Rightarrow> int" where
  "ttl i now = uint (origTTL i) - (now - stored i) div 1000000000"

text \<open>
  The heap of item objects. A \<^verbatim>\<open>*item\<close> is an index into it; \<^verbatim>\<open>&newi\<close> of a fresh
  local allocates at the end. An address outside the heap stands for \<^verbatim>\<open>nil\<close>: reading
  through it panics.
\<close>

type_synonym heap = "item list"

definition deref :: "heap \<Rightarrow> ref \<Rightarrow> item option" where
  "deref hp p = (if p < length hp then Some (hp ! p) else None)"

subsection \<open>Requests\<close>

text \<open>
  \<^verbatim>\<open>dns.Msg\<close> of the DNS library, as far as the cache reads it: the header bits and the
  sections. \<^verbatim>\<open>MsgRcode\<close> is the message's \<^verbatim>\<open>Rcode\<close>.
\<close>

record msg =
  Response :: bool
  Authoritative :: bool
  Truncated :: bool
  RecursionDesired :: bool
  RecursionAvailable :: bool
  Zero :: bool
  AuthenticatedData :: bool
  CheckingDisabled :: bool
  MsgRcode :: int
  Answer :: "rr list"
  Ns :: "rr list"
  Extra :: "rr list"

text \<open>
  \<^verbatim>\<open>request.Request\<close> of the CoreDNS library: the message \<^verbatim>\<open>Req\<close>, and the values its
  accessor methods return. \<^verbatim>\<open>Name()\<close> is the question's name, lower-cased by the library,
  \<^verbatim>\<open>QName()\<close> the name as sent, \<^verbatim>\<open>QType()\<close> the question's type, \<^verbatim>\<open>Do()\<close> the DO bit of
  the EDNS0 record, \<^verbatim>\<open>IP()\<close> the client's address.
\<close>

record request =
  Req :: msg
  Name :: string
  QName :: string
  QType :: "16 word"
  Do :: bool
  IP :: string

subsection \<open>Helpers declared in the backend\<close>

text \<open>
  Modelled from the spec: the functions that are called here and defined in the backend, taken as
  parameters.
  \<^item> \<open>hash\<close>: \<^verbatim>\<open>hash(qname, qtype, do, cd) uint64\<close>. The specification calls the key an
    opaque fixed-width (64-bit) fingerprint computed from the case-normalized query name,
    the query type, the DNSSEC-requested flag and the checking-disabled flag.
  \<^item> \<open>matches\<close>: \<^verbatim>\<open>(i *item) matches(state) bool\<close>. The specification speaks of a
    matching item and does not say more.
  \<^item> \<open>Seconds_int\<close> and \<open>Seconds_uint32\<close>: the Go conversions \<^verbatim>\<open>int(d.Seconds())\<close> and
    \<^verbatim>\<open>uint32(d.Seconds())\<close> of a duration. \<^verbatim>\<open>Seconds()\<close> is a \<^verbatim>\<open>float64\<close>; its rounding
    and the conversion of a value out of range are left to the parameter.
\<close>

record helpers =
  hash :: "string \<Rightarrow> 16 word \<Rightarrow> bool \<Rightarrow> bool \<Rightarrow> key"
  matches :: "item \<Rightarrow> request \<Rightarrow> bool"
  Seconds_int :: "duration \<Rightarrow> int"
  Seconds_uint32 :: "duration \<Rightarrow> 32 word"

text \<open>
  The first statement of \<^verbatim>\<open>getEarly\<close> and of \<^verbatim>\<open>getLate\<close>:
  \<^verbatim>\<open>k := hash(state.Name(), state.QType(), state.Do(), state.Req.CheckingDisabled)\<close>.
\<close>

definition key_of :: "helpers \<Rightarrow> request \<Rightarrow> key" where
  "key_of h state = hash h (Name state) (QType state) (Do state) (CheckingDisabled (Req state))"

subsection \<open>The Kubernetes pod store: \<^verbatim>\<open>k8sapi.go\<close>\<close>

record PodIP =
  PodIP_IP :: string

record PodStatus =
  PodIPs :: "PodIP list"

record Pod =
  Status :: PodStatus

text \<open>
  An element of \<^verbatim>\<open>k.store.List()\<close> is an \<^verbatim>\<open>interface{}\<close>: a (non-nil) \<^verbatim>\<open>*v1.Pod\<close>, or a
  value of another dynamic type.
\<close>

datatype store_item = IsPod Pod | NotPod

text \<open>
  \<^verbatim>\<open>type k8sAPI struct\<close>. The field \<^verbatim>\<open>store\<close> is an interface: \<open>None\<close> is the nil
  interface that \<^verbatim>\<open>&k8sAPI{}\<close> holds, \<open>Some items\<close> a store whose \<^verbatim>\<open>List()\<close> returns
  \<open>items\<close>. The reflector and the credentials play no part in the functions below.
\<close>

record k8sAPI =
  store :: "store_item list option"

datatype log_entry = Errorf string string
  \<comment> \<open>\<^verbatim>\<open>clog.NewWithPlugin(plugin).Errorf(message)\<close>\<close>

text \<open>The inner loop of \<^verbatim>\<open>getEarlyRefreshIPs\<close>: append the address of each pod IP.\<close>

fun append_ips :: "string list \<Rightarrow> PodIP list \<Rightarrow> string list" where
  "append_ips ips [] = ips"
| "append_ips ips (p # ps) = append_ips (ips @ [PodIP_IP p]) ps"

text \<open>
  The outer loop. The result is the returned slice (\<open>None\<close> is \<^verbatim>\<open>nil\<close>) and the log
  lines written.
\<close>

fun pods_loop :: "store_item list \<Rightarrow> string list \<Rightarrow> string list option \<times> log_entry list" where
  "pods_loop [] ips = (Some ips, [])"
| "pods_loop (IsPod pod # items) ips = pods_loop items (append_ips ips (PodIPs (Status pod)))"
| "pods_loop (NotPod # items) ips =
     (None, [Errorf ''k8s_cache'' ''Cache item is not a *v1.Pod''])"

definition getEarlyRefreshIPs ::
  "k8sAPI \<Rightarrow> panic + (string list option \<times> log_entry list)" where
  "getEarlyRefreshIPs k =
     (case store k of
        None \<Rightarrow> Inl NilDereference
      | Some items \<Rightarrow> Inr (pods_loop items []))"

subsection \<open>The cache\<close>

text \<open>
  The stores are \<^verbatim>\<open>*cache.Cache\<close> of the CoreDNS library: bounded maps from \<^verbatim>\<open>uint64\<close> to
  \<^verbatim>\<open>interface{}\<close>, here always a \<^verbatim>\<open>*item\<close>. \<^verbatim>\<open>Get\<close> reads the map. \<^verbatim>\<open>Add\<close> overwrites
  the key; when the key is new and the store is full it first evicts one other entry,
  chosen by the store. The choice is the parameter \<open>victim\<close>: \<open>None\<close> when nothing is
  evicted.
\<close>

type_synonym store = "key \<rightharpoonup> ref"

definition cache_Add :: "store \<Rightarrow> key option \<Rightarrow> key \<Rightarrow> ref \<Rightarrow> store" where
  "cache_Add m victim k el =
     (case victim of
        None \<Rightarrow> m(k \<mapsto> el)
      | Some k' \<Rightarrow> if m k = None then (m(k' := None))(k \<mapsto> el) else m(k \<mapsto> el))"

text \<open>
  \<^verbatim>\<open>CacheBackend\<close> is declared in the backend; these are the fields the functions here
  and their tests read: the two stores, the TTL bounds (\<^verbatim>\<open>pttl\<close> and \<^verbatim>\<open>nttl\<close> are the
  ceilings, \<^verbatim>\<open>minpttl\<close> and \<^verbatim>\<open>minnttl\<close> the floors, \<^verbatim>\<open>failttl\<close> the ceiling for server
  failures), the staleness window and the metric labels. \<^verbatim>\<open>Cache\<close> embeds it.
\<close>

record CacheBackend =
  pcache :: store
  ncache :: store
  pttl :: duration
  minpttl :: duration
  nttl :: duration
  minnttl :: duration
  failttl :: duration
  staleUpTo :: duration
  zonesMetricLabel :: string
  viewMetricLabel :: string

record Cache = CacheBackend +
  latepcache :: store
  extrattl :: duration
  k8sAPI :: k8sAPI

text \<open>
  \<^verbatim>\<open>New\<close>. \<^verbatim>\<open>NewBackend()\<close> belongs to the backend: its result is the parameter \<open>cb\<close>.
  \<^verbatim>\<open>extrattl\<close> is left at its zero value.
\<close>

definition New :: "CacheBackend \<Rightarrow> Cache" where
  "New cb =
     \<lparr> pcache = pcache cb, ncache = ncache cb, pttl = pttl cb, minpttl = minpttl cb,
       nttl = nttl cb, minnttl = minnttl cb, failttl = failttl cb, staleUpTo = staleUpTo cb,
       zonesMetricLabel = zonesMetricLabel cb, viewMetricLabel = viewMetricLabel cb,
       latepcache = Map.empty, extrattl = 0, k8sAPI = \<lparr> store = None \<rparr> \<rparr>"

text \<open>
  \<^verbatim>\<open>copyToLate\<close>: copy item \<open>i\<close> to the late cache if the conditions are right. The result
  is the cache and the heap after the call.
\<close>

definition copyToLate ::
  "helpers \<Rightarrow> key option \<Rightarrow> Cache \<Rightarrow> heap \<Rightarrow> key \<Rightarrow> ref \<Rightarrow> time \<Rightarrow> panic + (Cache \<times> heap)" where
  "copyToLate h victim c hp k i now =
     (case deref hp i of
        None \<Rightarrow> Inl NilDereference
      | Some src \<Rightarrow>
          if Rcode src = RcodeSuccess then
            (case (case latepcache c k of
                     Some ii \<Rightarrow>
                       (case deref hp ii of
                          None \<Rightarrow> Inl NilDereference
                        | Some li \<Rightarrow> Inr (ttl li now \<le> 0))
                   | None \<Rightarrow> Inr True) of
               Inl e \<Rightarrow> Inl e
             | Inr add \<Rightarrow>
                 if add then
                   let newi = src\<lparr> origTTL := origTTL src + Seconds_uint32 h (extrattl c) \<rparr>
                   in Inr (c\<lparr> latepcache := cache_Add (latepcache c) victim k (length hp) \<rparr>,
                           hp @ [newi])
                 else Inr (c, hp))
          else Inr (c, hp))"

text \<open>The metrics the lookups increment, with their label values.\<close>

datatype hit_type = Success | Denial

datatype metric =
    cacheHits string hit_type string string
  | cacheMisses string string string
  | cacheRequests string string string

text \<open>
  \<^verbatim>\<open>getEarly\<close>: get the cache item for \<^verbatim>\<open>c.ncache\<close> or \<^verbatim>\<open>c.pcache\<close> (the early cache).
  Only an \<^verbatim>\<open>ncache\<close> item can be stale. The result is the returned pointer (\<open>None\<close> is
  \<^verbatim>\<open>nil\<close>) and the metrics incremented.
\<close>

definition getEarly ::
  "helpers \<Rightarrow> Cache \<Rightarrow> heap \<Rightarrow> time \<Rightarrow> request \<Rightarrow> string \<Rightarrow> panic + (ref option \<times> metric list)" where
  "getEarly h c hp now state server =
     (let k = key_of h state in
      case (case ncache c k of
              Some i \<Rightarrow>
                (case deref hp i of
                   None \<Rightarrow> Inl NilDereference
                 | Some itm \<Rightarrow>
                     let t = ttl itm now in
                     if matches h itm state \<and>
                        (t > 0 \<or> (0 < sint (staleUpTo c) \<and> - t < Seconds_int h (staleUpTo c)))
                     then Inr (Some i) else Inr None)
            | None \<Rightarrow> Inr None) of
        Inl e \<Rightarrow> Inl e
      | Inr (Some i) \<Rightarrow>
          Inr (Some i, [cacheHits server Denial (zonesMetricLabel c) (viewMetricLabel c)])
      | Inr None \<Rightarrow>
          (case (case pcache c k of
                   Some i \<Rightarrow>
                     (case deref hp i of
                        None \<Rightarrow> Inl NilDereference
                      | Some itm \<Rightarrow>
                          let t = ttl itm now in
                          if matches h itm state \<and> t > 0 then Inr (Some i) else Inr None)
                 | None \<Rightarrow> Inr None) of
             Inl e \<Rightarrow> Inl e
           | Inr (Some i) \<Rightarrow>
               Inr (Some i, [cacheHits server Success (zonesMetricLabel c) (viewMetricLabel c)])
           | Inr None \<Rightarrow>
               Inr (None, [cacheMisses server (zonesMetricLabel c) (viewMetricLabel c)])))"

text \<open>
  \<^verbatim>\<open>getLate\<close>: the lookup in the late cache. The staleness window is
  \<^verbatim>\<open>c.staleUpTo - c.extrattl\<close>.
\<close>

definition getLate ::
  "helpers \<Rightarrow> Cache \<Rightarrow> heap \<Rightarrow> time \<Rightarrow> request \<Rightarrow> string \<Rightarrow> panic + (ref option \<times> metric list)" where
  "getLate h c hp now state server =
     (let k = key_of h state;
          requests = [cacheRequests server (zonesMetricLabel c) (viewMetricLabel c)] in
      case latepcache c k of
        Some i \<Rightarrow>
          (case deref hp i of
             None \<Rightarrow> Inl NilDereference
           | Some itm \<Rightarrow>
               let t = ttl itm now;
                   staleupto = staleUpTo c - extrattl c in
               if matches h itm state \<and>
                  (t > 0 \<or> (0 < sint staleupto \<and> - t < Seconds_int h staleupto))
               then Inr (Some i,
                      requests @ [cacheHits server Success (zonesMetricLabel c) (viewMetricLabel c)])
               else Inr (None, requests))
      | None \<Rightarrow> Inr (None, requests))"

text \<open>The loop of \<^verbatim>\<open>NeedEarlyRefresh\<close> over \<^verbatim>\<open>earlyips\<close>.\<close>

fun ips_loop :: "string list \<Rightarrow> string \<Rightarrow> bool" where
  "ips_loop [] me = False"
| "ips_loop (ip # ips) me = (if ip = me then True else ips_loop ips me)"

text \<open>Ranging over a nil slice runs no iteration.\<close>

definition slice_elems :: "'a list option \<Rightarrow> 'a list" where
  "slice_elems s = (case s of None \<Rightarrow> [] | Some xs \<Rightarrow> xs)"

definition NeedEarlyRefresh :: "Cache \<Rightarrow> request \<Rightarrow> panic + (bool \<times> log_entry list)" where
  "NeedEarlyRefresh c state =
     (case getEarlyRefreshIPs (k8sAPI c) of
        Inl e \<Rightarrow> Inl e
      | Inr (earlyips, logged) \<Rightarrow> Inr (ips_loop (slice_elems earlyips) (IP state), logged))"

subsection \<open>Predicates used in the statements\<close>

text \<open>The addresses one store element contributes: every pod IP of a pod.\<close>

fun pod_addresses :: "store_item \<Rightarrow> string list" where
  "pod_addresses (IsPod pod) = map PodIP_IP (PodIPs (Status pod))"
| "pod_addresses NotPod = []"

text \<open>The late cache holds an entry for \<open>k\<close> that is still fresh at \<open>now\<close>.\<close>

definition late_fresh :: "Cache \<Rightarrow> heap \<Rightarrow> key \<Rightarrow> time \<Rightarrow> bool" where
  "late_fresh c hp k now =
     (case latepcache c k of
        None \<Rightarrow> False
      | Some ii \<Rightarrow> (case deref hp ii of None \<Rightarrow> False | Some li \<Rightarrow> 0 < ttl li now))"

text \<open>
  An item is usable at \<open>now\<close> under a staleness window \<open>w\<close>: it matches the request and
  is fresh, or stale for less than the window.
\<close>

definition usable :: "helpers \<Rightarrow> duration \<Rightarrow> item \<Rightarrow> request \<Rightarrow> time \<Rightarrow> bool" where
  "usable h w itm state now \<longleftrightarrow>
     matches h itm state \<and> (0 < ttl itm now \<or> (0 < sint w \<and> - ttl itm now < Seconds_int h w))"

text \<open>Every entry of the late cache points to an item whose Rcode is success.\<close>

definition late_all_success :: "Cache \<Rightarrow> heap \<Rightarrow> bool" where
  "late_all_success c hp \<longleftrightarrow>
     (\<forall>k p. latepcache c k = Some p \<longrightarrow> (\<exists>itm. deref hp p = Some itm \<and> Rcode itm = RcodeSuccess))"

text \<open>
  The states of a cache and its heap that a run can reach: \<^verbatim>\<open>New\<close> creates the cache;
  \<^verbatim>\<open>copyToLate\<close> is the only writer of the late cache; any other operation leaves the
  late cache alone and changes no item object (it may allocate new ones).
\<close>

inductive reachable :: "helpers \<Rightarrow> Cache \<Rightarrow> heap \<Rightarrow> bool" for h :: helpers where
  created: "reachable h (New cb) hp"
| copied: "reachable h c hp \<Longrightarrow> copyToLate h victim c hp k i now = Inr (c', hp')
            \<Longrightarrow> reachable h c' hp'"
| other: "reachable h c hp \<Longrightarrow> latepcache c' = latepcache c \<Longrightarrow> take (length hp) hp' = hp
            \<Longrightarrow> reachable h c' hp'"

subsection \<open>The backend, modelled from the specification\<close>

definition Second :: duration where
  "Second = 1000000000"

text \<open>
  Modelled from the spec: the function \<^verbatim>\<open>computeTTL\<close>, of which the files covered here hold the test
  only. The specification gives \<open>computeTTL(msgTTL, minTTL, maxTTL) = clamp(msgTTL, minTTL,
  maxTTL)\<close>: the floor when below it, the ceiling when above it, the value otherwise.
\<close>

definition computeTTL :: "duration \<Rightarrow> duration \<Rightarrow> duration \<Rightarrow> duration" where
  "computeTTL msgTTL minTTL maxTTL =
     (if sint msgTTL < sint minTTL then minTTL
      else if sint maxTTL < sint msgTTL then maxTTL
      else msgTTL)"













subsection \<open>A worked scenario\<close>

text \<open>
  The scenario of the test \<^verbatim>\<open>TestNegativeStaleMaskingPositiveCache\<close>, as a state: a
  staleness window of ten minutes; a name error for \<^verbatim>\<open>cached.org.\<close> stored at time 0
  with a TTL of 60 seconds; a positive answer for the same name stored at 250 seconds
  with a TTL of 300 seconds; the time now is five minutes. The helpers are simple
  instances: the fingerprint adds up its inputs, every item matches, the conversions
  truncate.
\<close>

definition example_helpers :: helpers where
  "example_helpers =
     \<lparr> hash = (\<lambda>qname qtype do cd.
                 of_nat (length qname) * 1024 + ucast qtype * 4
                 + (if do then 2 else 0) + (if cd then 1 else 0)),
       matches = (\<lambda>i state. True),
       Seconds_int = (\<lambda>d. sint d div 1000000000),
       Seconds_uint32 = (\<lambda>d. word_of_int (sint d div 1000000000)) \<rparr>"

definition example_msg :: msg where
  "example_msg =
     \<lparr> Response = False, Authoritative = False, Truncated = False, RecursionDesired = True,
       RecursionAvailable = False, Zero = False, AuthenticatedData = False,
       CheckingDisabled = False, MsgRcode = 0, Answer = [], Ns = [], Extra = [] \<rparr>"

definition example_state :: request where
  "example_state =
     \<lparr> Req = example_msg, Name = ''cached.org.'', QName = ''cached.org.'', QType = 1,
       Do = False, IP = ''10.0.0.7'' \<rparr>"

definition example_key :: key where
  "example_key = 11268"

definition example_negative :: item where
  "example_negative =
     \<lparr> Rcode = 3, flag_AD = False, flag_RA = False, flag_CD = False, answer_section = [],
       authority_section = [], additional_section = [], wildcard = [],
       origTTL = 60, stored = 0 \<rparr>"

definition example_positive :: item where
  "example_positive =
     \<lparr> Rcode = 0, flag_AD = False, flag_RA = False, flag_CD = False, answer_section = [],
       authority_section = [], additional_section = [], wildcard = [],
       origTTL = 300, stored = 250000000000 \<rparr>"

definition example_heap :: heap where
  "example_heap = [example_negative, example_positive]"

definition example_now :: time where
  "example_now = 300000000000"

definition example_backend :: CacheBackend where
  "example_backend =
     \<lparr> pcache = Map.empty, ncache = Map.empty, pttl = 3600000000000, minpttl = 5000000000,
       nttl = 1800000000000, minnttl = 5000000000, failttl = 5000000000, staleUpTo = 0,
       zonesMetricLabel = [], viewMetricLabel = [] \<rparr>"

definition example_pods :: "store_item list" where
  "example_pods =
     [IsPod \<lparr> Status = \<lparr> PodIPs = [\<lparr> PodIP_IP = ''10.0.0.7'' \<rparr>, \<lparr> PodIP_IP = ''fd00::7'' \<rparr>] \<rparr> \<rparr>,
      IsPod \<lparr> Status = \<lparr> PodIPs = [\<lparr> PodIP_IP = ''10.0.0.9'' \<rparr>] \<rparr> \<rparr>]"

definition example_cache :: Cache where
  "example_cache =
     (New example_backend)
       \<lparr> ncache := [example_key \<mapsto> 0], pcache := [example_key \<mapsto> 1],
         staleUpTo := 600000000000, extrattl := 30000000000,
         k8sAPI := \<lparr> store = Some example_pods \<rparr> \<rparr>"

text \<open>The same state after the positive item has been copied to the late cache.\<close>

definition example_late_cache :: Cache where
  "example_late_cache = example_cache\<lparr> latepcache := [example_key \<mapsto> 2] \<rparr>"

definition example_late_heap :: heap where
  "example_late_heap = example_heap @ [example_positive\<lparr> origTTL := 330 \<rparr>]"





section \<open>Proofs\<close>

subsection \<open>Loops and stores\<close>


lemma append_ips_eq: "append_ips ips ps = ips @ map PodIP_IP ps"
  by (induction ps arbitrary: ips) auto

lemma pods_loop_eq:
  "pods_loop items ips =
     (if NotPod \<in> set items
      then (None, [Errorf ''k8s_cache'' ''Cache item is not a *v1.Pod''])
      else (Some (ips @ concat (map pod_addresses items)), []))"
  by (induction items ips rule: pods_loop.induct) (auto simp: append_ips_eq)

lemma deref_append_old: "p < length hp \<Longrightarrow> deref (hp @ xs) p = deref hp p"
  by (simp add: deref_def nth_append)

lemma deref_append_new: "deref (hp @ [x]) (length hp) = Some x"
  by (simp add: deref_def)

lemma deref_Some_less: "deref hp p = Some x \<Longrightarrow> p < length hp"
  by (simp add: deref_def split: if_splits)

lemma deref_take:
  assumes "take (length hp) hp' = hp" and "p < length hp"
  shows "deref hp' p = deref hp p"
proof -
  have "length hp \<le> length hp'"
  proof (rule ccontr)
    assume "\<not> length hp \<le> length hp'"
    then have "length (take (length hp) hp') < length hp" by simp
    with assms(1) show False by (metis less_irrefl)
  qed
  moreover have "hp' ! p = take (length hp) hp' ! p"
    using assms(2) by simp
  ultimately show ?thesis
    using assms by (simp only: deref_def) simp
qed

lemma cache_Add_same: "cache_Add m victim k el k = Some el"
  by (simp add: cache_Add_def split: option.splits)

lemma cache_Add_other:
  "cache_Add m victim k el k' = Some p \<Longrightarrow> k' \<noteq> k \<Longrightarrow> m k' = Some p"
  by (auto simp: cache_Add_def split: option.splits if_splits)

subsection \<open>\<^verbatim>\<open>copyToLate\<close>\<close>

lemma copyToLate_nil:
  "deref hp i = None \<Longrightarrow> copyToLate h victim c hp k i now = Inl NilDereference"
  by (simp add: copyToLate_def)

lemma copyToLate_result:
  assumes "deref hp i = Some src"
  shows "copyToLate h victim c hp k i now =
           (if Rcode src \<noteq> RcodeSuccess then Inr (c, hp)
            else case latepcache c k of
                   None \<Rightarrow>
                     Inr (c\<lparr> latepcache := cache_Add (latepcache c) victim k (length hp) \<rparr>,
                          hp @ [src\<lparr> origTTL := origTTL src + Seconds_uint32 h (extrattl c) \<rparr>])
                 | Some ii \<Rightarrow>
                     (case deref hp ii of
                        None \<Rightarrow> Inl NilDereference
                      | Some li \<Rightarrow>
                          if ttl li now \<le> 0
                          then Inr (c\<lparr> latepcache := cache_Add (latepcache c) victim k (length hp) \<rparr>,
                                    hp @ [src\<lparr> origTTL := origTTL src + Seconds_uint32 h (extrattl c) \<rparr>])
                          else Inr (c, hp)))"
  using assms by (simp add: copyToLate_def Let_def split: option.splits)

lemma copyToLate_Inr_cases:
  assumes "copyToLate h victim c hp k i now = Inr (c', hp')"
  shows "(c' = c \<and> hp' = hp) \<or>
         (\<exists>src. deref hp i = Some src \<and> Rcode src = RcodeSuccess
            \<and> c' = c\<lparr> latepcache := cache_Add (latepcache c) victim k (length hp) \<rparr>
            \<and> hp' = hp @ [src\<lparr> origTTL := origTTL src + Seconds_uint32 h (extrattl c) \<rparr>]
            \<and> \<not> late_fresh c hp k now)"
proof (cases "deref hp i")
  case None
  with assms show ?thesis by (simp add: copyToLate_nil)
next
  case (Some src)
  from assms show ?thesis
    unfolding copyToLate_result [OF Some]
    by (auto simp: Some late_fresh_def split: if_splits option.splits)
qed

lemma copyToLate_preserves_success:
  assumes inv: "late_all_success c hp"
      and run: "copyToLate h victim c hp k i now = Inr (c', hp')"
  shows "late_all_success c' hp'"
proof -
  from copyToLate_Inr_cases [OF run] show ?thesis
  proof (elim disjE exE conjE)
    assume "c' = c" "hp' = hp"
    with inv show ?thesis by simp
  next
    fix src
    assume src: "deref hp i = Some src" "Rcode src = RcodeSuccess"
      and c': "c' = c\<lparr> latepcache := cache_Add (latepcache c) victim k (length hp) \<rparr>"
      and hp': "hp' = hp @ [src\<lparr> origTTL := origTTL src + Seconds_uint32 h (extrattl c) \<rparr>]"
    show ?thesis
      unfolding late_all_success_def
    proof (intro allI impI)
      fix k' p
      assume e: "latepcache c' k' = Some p"
      show "\<exists>itm. deref hp' p = Some itm \<and> Rcode itm = RcodeSuccess"
      proof (cases "k' = k")
        case True
        with e c' have "p = length hp" by (simp add: cache_Add_same)
        then show ?thesis using hp' src(2) by (simp add: deref_append_new)
      next
        case False
        from e c' have "cache_Add (latepcache c) victim k (length hp) k' = Some p"
          by simp
        then have "latepcache c k' = Some p"
          using False by (rule cache_Add_other)
        with inv obtain itm where itm: "deref hp p = Some itm" "Rcode itm = RcodeSuccess"
          unfolding late_all_success_def by blast
        from itm(1) have "p < length hp" by (rule deref_Some_less)
        then have "deref hp' p = deref hp p" using hp' by (simp add: deref_append_old)
        with itm show ?thesis by simp
      qed
    qed
  qed
qed

lemma other_preserves_success:
  assumes inv: "late_all_success c hp"
      and same: "latepcache c' = latepcache c"
      and ext: "take (length hp) hp' = hp"
  shows "late_all_success c' hp'"
  unfolding late_all_success_def
proof (intro allI impI)
  fix k p
  assume "latepcache c' k = Some p"
  with same have "latepcache c k = Some p" by simp
  with inv obtain itm where itm: "deref hp p = Some itm" "Rcode itm = RcodeSuccess"
    unfolding late_all_success_def by blast
  from itm(1) have "p < length hp" by (rule deref_Some_less)
  with ext have "deref hp' p = deref hp p" by (rule deref_take)
  with itm show "\<exists>itm. deref hp' p = Some itm \<and> Rcode itm = RcodeSuccess" by simp
qed

lemma New_late_empty: "late_all_success (New cb) hp"
  by (simp add: late_all_success_def New_def)

text \<open>
  Claim C9. The late positive cache contains only successful answers: starting from the
  cache that \<^verbatim>\<open>New\<close> creates, with \<^verbatim>\<open>copyToLate\<close> as the only writer of the late cache,
  every entry of \<^verbatim>\<open>latepcache\<close> in every reachable state points to an item whose Rcode is
  \<^verbatim>\<open>RcodeSuccess\<close>.
\<close>

theorem late_cache_only_success:
  "reachable h c hp \<Longrightarrow> late_all_success c hp"
proof (induction rule: reachable.induct)
  case (created cb hp)
  show ?case by (rule New_late_empty)
next
  case (copied c hp victim k i now c' hp')
  then show ?case by (blast intro: copyToLate_preserves_success)
next
  case (other c hp c' hp')
  then show ?case by (blast intro: other_preserves_success)
qed

lemma example_key_of: "key_of example_helpers example_state = example_key"
  by (simp add: key_of_def example_helpers_def example_state_def example_msg_def example_key_def)

subsection \<open>Early-refresh identities\<close>


text \<open>
  Claim C10. If any element of the pod store's list is not a \<^verbatim>\<open>*v1.Pod\<close>,
  \<^verbatim>\<open>getEarlyRefreshIPs\<close> logs an error and returns nil, so that \<^verbatim>\<open>NeedEarlyRefresh\<close> is
  false for every request; otherwise it returns every pod IP of every listed pod, in
  the order of the list, and logs nothing.
\<close>

theorem getEarlyRefreshIPs_all_or_nothing:
  assumes "store (k8sAPI c) = Some items"
  shows "getEarlyRefreshIPs (k8sAPI c) =
           (if NotPod \<in> set items
            then Inr (None, [Errorf ''k8s_cache'' ''Cache item is not a *v1.Pod''])
            else Inr (Some (concat (map pod_addresses items)), []))
         \<and> (NotPod \<in> set items \<longrightarrow>
              NeedEarlyRefresh c state =
                Inr (False, [Errorf ''k8s_cache'' ''Cache item is not a *v1.Pod'']))"
  using assms
  by (simp add: getEarlyRefreshIPs_def NeedEarlyRefresh_def pods_loop_eq slice_elems_def)

theorem getEarlyRefreshIPs_all_or_nothing_witness:
  "store (k8sAPI (example_cache\<lparr> k8sAPI := \<lparr> store = Some (example_pods @ [NotPod]) \<rparr> \<rparr>))
     = Some (example_pods @ [NotPod])
   \<and> NotPod \<in> set (example_pods @ [NotPod])
   \<and> getEarlyRefreshIPs (k8sAPI (example_cache\<lparr> k8sAPI := \<lparr> store = Some (example_pods @ [NotPod]) \<rparr> \<rparr>))
     = Inr (None, [Errorf ''k8s_cache'' ''Cache item is not a *v1.Pod''])
   \<and> NeedEarlyRefresh (example_cache\<lparr> k8sAPI := \<lparr> store = Some (example_pods @ [NotPod]) \<rparr> \<rparr>)
        example_state
     = Inr (False, [Errorf ''k8s_cache'' ''Cache item is not a *v1.Pod''])
   \<and> store (k8sAPI example_cache) = Some example_pods
   \<and> NotPod \<notin> set example_pods
   \<and> getEarlyRefreshIPs (k8sAPI example_cache)
     = Inr (Some [''10.0.0.7'', ''fd00::7'', ''10.0.0.9''], [])"
proof -
  have s1: "store (k8sAPI (example_cache\<lparr> k8sAPI := \<lparr> store = Some (example_pods @ [NotPod]) \<rparr> \<rparr>))
              = Some (example_pods @ [NotPod])"
    by simp
  have s2: "store (k8sAPI example_cache) = Some example_pods"
    by (simp add: example_cache_def)
  have n: "NotPod \<notin> set example_pods"
    by (simp add: example_pods_def)
  show ?thesis
    using getEarlyRefreshIPs_all_or_nothing [OF s1, of example_state]
      getEarlyRefreshIPs_all_or_nothing [OF s2, of example_state] s1 s2 n
    by (simp add: example_pods_def)
qed

subsection \<open>The late lookup\<close>

text \<open>
  Claim C3. When the late cache holds an item under the request's key, \<^verbatim>\<open>getLate\<close>
  returns it if and only if it matches the request and either its remaining TTL is
  positive, or the reduced staleness window \<^verbatim>\<open>staleUpTo - extrattl\<close> is positive and the
  item's age past expiry, \<open>- ttl\<close>, is less than that window in seconds; otherwise, and
  when the late cache holds nothing under the key, it returns nil.
\<close>

theorem getLate_window:
  "(latepcache c (key_of h state) = Some p \<and> deref hp p = Some itm \<longrightarrow>
      getLate h c hp now state server =
        (if matches h itm state \<and>
            (0 < ttl itm now \<or>
             (0 < sint (staleUpTo c - extrattl c) \<and>
              - ttl itm now < Seconds_int h (staleUpTo c - extrattl c)))
         then Inr (Some p, [cacheRequests server (zonesMetricLabel c) (viewMetricLabel c),
                            cacheHits server Success (zonesMetricLabel c) (viewMetricLabel c)])
         else Inr (None, [cacheRequests server (zonesMetricLabel c) (viewMetricLabel c)])))
   \<and> (latepcache c (key_of h state) = None \<longrightarrow>
      getLate h c hp now state server =
        Inr (None, [cacheRequests server (zonesMetricLabel c) (viewMetricLabel c)]))"
  by (auto simp: getLate_def Let_def)

theorem getLate_window_witness:
  "latepcache (example_cache\<lparr> latepcache := [example_key \<mapsto> 2] \<rparr>)
     (key_of example_helpers example_state) = Some 2
   \<and> deref (example_heap @ [example_positive\<lparr> origTTL := 330 \<rparr>]) 2
       = Some (example_positive\<lparr> origTTL := 330 \<rparr>)
   \<and> ttl (example_positive\<lparr> origTTL := 330 \<rparr>) 680000000000 = - 100
   \<and> getLate example_helpers (example_cache\<lparr> latepcache := [example_key \<mapsto> 2] \<rparr>)
        (example_heap @ [example_positive\<lparr> origTTL := 330 \<rparr>]) 680000000000 example_state
        ''dns://:53''
     = Inr (Some 2, [cacheRequests ''dns://:53'' [] [], cacheHits ''dns://:53'' Success [] []])
   \<and> getLate example_helpers (example_cache\<lparr> latepcache := [example_key \<mapsto> 2] \<rparr>)
        (example_heap @ [example_positive\<lparr> origTTL := 330 \<rparr>]) 1150000000000 example_state
        ''dns://:53''
     = Inr (None, [cacheRequests ''dns://:53'' [] []])"
proof -
  have e: "latepcache (example_cache\<lparr> latepcache := [example_key \<mapsto> 2] \<rparr>)
             (key_of example_helpers example_state) = Some 2"
    by (simp add: example_key_of)
  have d: "deref (example_heap @ [example_positive\<lparr> origTTL := 330 \<rparr>]) 2
             = Some (example_positive\<lparr> origTTL := 330 \<rparr>)"
    by (simp add: deref_def example_heap_def)
  show ?thesis
    using getLate_window [where now = 680000000000 and server = "''dns://:53''",
        THEN conjunct1, rule_format, OF conjI [OF e d]]
      getLate_window [where now = 1150000000000 and server = "''dns://:53''",
        THEN conjunct1, rule_format, OF conjI [OF e d]] e d
    by (simp add: ttl_def example_positive_def example_cache_def New_def example_backend_def
        example_helpers_def)
qed

subsection \<open>The early lookup\<close>

lemma example_deref_0: "deref example_heap 0 = Some example_negative"
  by (simp add: deref_def example_heap_def)

lemma example_deref_1: "deref example_heap (Suc 0) = Some example_positive"
  by (simp add: deref_def example_heap_def)

lemma example_ncache: "ncache example_cache example_key = Some 0"
  by (simp add: example_cache_def)

lemma example_pcache: "pcache example_cache example_key = Some 1"
  by (simp add: example_cache_def)

lemma example_latepcache: "latepcache example_cache = Map.empty"
  by (simp add: example_cache_def New_def)

lemma example_ttl_negative: "ttl example_negative example_now = - 240"
  by (simp add: ttl_def example_negative_def example_now_def)

lemma example_ttl_positive: "ttl example_positive example_now = 250"
  by (simp add: ttl_def example_positive_def example_now_def)

lemma example_window: "Seconds_int example_helpers (staleUpTo example_cache) = 600"
  by (simp add: example_helpers_def example_cache_def)

lemma example_getEarly:
  "getEarly example_helpers example_cache example_heap example_now example_state ''dns://:53''
     = Inr (Some 0, [cacheHits ''dns://:53'' Denial [] []])"
  by (simp add: getEarly_def example_key_of example_ncache example_pcache example_deref_0
      example_deref_1 example_ttl_negative example_ttl_positive example_window)
    (simp add: example_helpers_def example_cache_def New_def example_backend_def)

text \<open>
  Against claim C1 as stated: the negative store holds a matching item that is stale
  within the staleness window, the positive store holds a matching fresh item under the
  same key, and \<^verbatim>\<open>getEarly\<close> returns the stale negative item.
\<close>

theorem getEarly_stale_negative_masks_fresh_positive:
  "ncache example_cache (key_of example_helpers example_state) = Some 0
   \<and> deref example_heap 0 = Some example_negative
   \<and> matches example_helpers example_negative example_state
   \<and> ttl example_negative example_now \<le> 0
   \<and> 0 < sint (staleUpTo example_cache)
   \<and> - ttl example_negative example_now < Seconds_int example_helpers (staleUpTo example_cache)
   \<and> pcache example_cache (key_of example_helpers example_state) = Some 1
   \<and> deref example_heap 1 = Some example_positive
   \<and> matches example_helpers example_positive example_state
   \<and> 0 < ttl example_positive example_now
   \<and> getEarly example_helpers example_cache example_heap example_now example_state ''dns://:53''
       = Inr (Some 0, [cacheHits ''dns://:53'' Denial [] []])"
  using example_getEarly
  by (simp add: example_key_of example_ncache example_pcache example_deref_0
      example_deref_1 example_ttl_negative example_ttl_positive example_window)
    (simp add: example_helpers_def example_cache_def New_def example_backend_def)

text \<open>
  Claim C1, amended. \<^verbatim>\<open>getEarly\<close> probes the negative store first: when the item it holds
  under the request's key is usable (it matches and is fresh, or stale within the
  staleness window), that item is returned, whatever the positive store holds. When the
  negative store holds nothing under the key, or an item that is not usable, the item
  of the positive store is returned if and only if it matches and is fresh: a stale
  positive item is never returned. Otherwise the result is nil.
\<close>

theorem getEarly_negative_first:
  "(ncache c (key_of h state) = Some pn \<and> deref hp pn = Some ni
      \<and> usable h (staleUpTo c) ni state now \<longrightarrow>
      getEarly h c hp now state server =
        Inr (Some pn, [cacheHits server Denial (zonesMetricLabel c) (viewMetricLabel c)]))
   \<and> ((ncache c (key_of h state) = None
        \<or> (ncache c (key_of h state) = Some pn \<and> deref hp pn = Some ni
            \<and> \<not> usable h (staleUpTo c) ni state now))
      \<and> pcache c (key_of h state) = Some pp \<and> deref hp pp = Some pi \<longrightarrow>
      getEarly h c hp now state server =
        (if matches h pi state \<and> 0 < ttl pi now
         then Inr (Some pp, [cacheHits server Success (zonesMetricLabel c) (viewMetricLabel c)])
         else Inr (None, [cacheMisses server (zonesMetricLabel c) (viewMetricLabel c)])))
   \<and> ((ncache c (key_of h state) = None
        \<or> (ncache c (key_of h state) = Some pn \<and> deref hp pn = Some ni
            \<and> \<not> usable h (staleUpTo c) ni state now))
      \<and> pcache c (key_of h state) = None \<longrightarrow>
      getEarly h c hp now state server =
        Inr (None, [cacheMisses server (zonesMetricLabel c) (viewMetricLabel c)]))"
  by (auto simp: getEarly_def usable_def Let_def)

theorem getEarly_negative_first_witness:
  "ncache example_cache (key_of example_helpers example_state) = Some 0
   \<and> deref example_heap 0 = Some example_negative
   \<and> usable example_helpers (staleUpTo example_cache) example_negative example_state example_now
   \<and> getEarly example_helpers example_cache example_heap example_now example_state ''dns://:53''
       = Inr (Some 0, [cacheHits ''dns://:53'' Denial [] []])
   \<and> \<not> usable example_helpers (staleUpTo example_cache) example_negative example_state
         900000000000
   \<and> pcache example_cache (key_of example_helpers example_state) = Some 1
   \<and> deref example_heap 1 = Some example_positive
   \<and> \<not> 0 < ttl example_positive 900000000000
   \<and> getEarly example_helpers example_cache example_heap 900000000000 example_state ''dns://:53''
       = Inr (None, [cacheMisses ''dns://:53'' [] []])"
proof -
  have n: "ncache example_cache (key_of example_helpers example_state) = Some 0"
    by (simp add: example_key_of example_ncache)
  have p: "pcache example_cache (key_of example_helpers example_state) = Some 1"
    by (simp add: example_key_of example_pcache)
  have u: "usable example_helpers (staleUpTo example_cache) example_negative example_state
             example_now"
    by (simp add: usable_def example_ttl_negative example_window)
      (simp add: example_helpers_def example_cache_def)
  have v: "\<not> usable example_helpers (staleUpTo example_cache) example_negative example_state
               900000000000"
    by (simp add: usable_def example_window ttl_def example_negative_def)
  have t: "\<not> 0 < ttl example_positive 900000000000"
    by (simp add: ttl_def example_positive_def)
  have l: "zonesMetricLabel example_cache = []" "viewMetricLabel example_cache = []"
    by (simp_all add: example_cache_def New_def example_backend_def)
  have q: "(ncache example_cache (key_of example_helpers example_state) = None
        \<or> (ncache example_cache (key_of example_helpers example_state) = Some 0
            \<and> deref example_heap 0 = Some example_negative
            \<and> \<not> usable example_helpers (staleUpTo example_cache) example_negative example_state
                  900000000000))
      \<and> pcache example_cache (key_of example_helpers example_state) = Some (Suc 0)
      \<and> deref example_heap (Suc 0) = Some example_positive"
    using n p v example_deref_0 example_deref_1 by simp
  show ?thesis
    using getEarly_negative_first [where now = example_now and server = "''dns://:53''",
        THEN conjunct1, rule_format, OF conjI [OF n conjI [OF example_deref_0 u]]]
      getEarly_negative_first [where now = 900000000000 and server = "''dns://:53''",
        THEN conjunct2, THEN conjunct1, rule_format, OF q]
      n p u v t l example_deref_0 example_deref_1
    by simp
qed

subsection \<open>Copying to the late cache\<close>

lemma example_copyToLate:
  "copyToLate example_helpers None example_cache example_heap example_key (Suc 0) example_now
     = Inr (example_late_cache, example_late_heap)"
proof -
  have "Rcode example_positive = RcodeSuccess"
    by (simp add: example_positive_def RcodeSuccess_def)
  moreover have "origTTL example_positive + Seconds_uint32 example_helpers (extrattl example_cache)
      = 330"
    by (simp add: example_positive_def example_helpers_def example_cache_def)
  moreover have "length example_heap = 2"
    by (simp add: example_heap_def)
  ultimately show ?thesis
    by (simp add: copyToLate_result [OF example_deref_1] example_latepcache cache_Add_def
        example_late_cache_def example_late_heap_def)
qed

text \<open>
  Against claim C2 as stated: the entry \<^verbatim>\<open>copyToLate\<close> writes at time 300 s carries the
  stored-at time of the source item, 250 s, not a fresh one.
\<close>

theorem copyToLate_keeps_stored_time:
  "deref example_heap 1 = Some example_positive
   \<and> latepcache example_cache example_key = None
   \<and> copyToLate example_helpers None example_cache example_heap example_key 1 example_now
       = Inr (example_late_cache, example_late_heap)
   \<and> latepcache example_late_cache example_key = Some 2
   \<and> deref example_late_heap 2 = Some (example_positive\<lparr> origTTL := 330 \<rparr>)
   \<and> stored (example_positive\<lparr> origTTL := 330 \<rparr>) = 250000000000
   \<and> example_now = 300000000000"
  using example_copyToLate example_deref_1
  by (simp add: example_latepcache example_late_cache_def example_late_heap_def deref_def
      example_heap_def example_now_def)
    (simp add: example_positive_def)

text \<open>
  Claim C2, amended. \<^verbatim>\<open>copyToLate(k, i, now)\<close> writes into the late cache exactly when
  the source item's Rcode is success and no entry of the late cache for \<open>k\<close> is still
  fresh at \<open>now\<close>; otherwise it changes nothing (skip if fresh). When it writes, the
  entry under \<open>k\<close> is a copy of the source item with \<^verbatim>\<open>origTTL\<close> increased by
  \<^verbatim>\<open>uint32(extrattl.Seconds())\<close>; its stored-at time is the source item's.
\<close>

theorem copyToLate_skip_if_fresh:
  assumes "deref hp i = Some src"
      and "\<forall>ii. latepcache c k = Some ii \<longrightarrow> ii < length hp"
  shows "copyToLate h victim c hp k i now =
           (if Rcode src = RcodeSuccess \<and> \<not> late_fresh c hp k now
            then Inr (c\<lparr> latepcache := cache_Add (latepcache c) victim k (length hp) \<rparr>,
                      hp @ [src\<lparr> origTTL := origTTL src + Seconds_uint32 h (extrattl c) \<rparr>])
            else Inr (c, hp))
       \<and> latepcache (c\<lparr> latepcache := cache_Add (latepcache c) victim k (length hp) \<rparr>) k
           = Some (length hp)
       \<and> deref (hp @ [src\<lparr> origTTL := origTTL src + Seconds_uint32 h (extrattl c) \<rparr>]) (length hp)
           = Some (src\<lparr> origTTL := origTTL src + Seconds_uint32 h (extrattl c) \<rparr>)
       \<and> stored (src\<lparr> origTTL := origTTL src + Seconds_uint32 h (extrattl c) \<rparr>) = stored src"
proof -
  have "copyToLate h victim c hp k i now =
           (if Rcode src = RcodeSuccess \<and> \<not> late_fresh c hp k now
            then Inr (c\<lparr> latepcache := cache_Add (latepcache c) victim k (length hp) \<rparr>,
                      hp @ [src\<lparr> origTTL := origTTL src + Seconds_uint32 h (extrattl c) \<rparr>])
            else Inr (c, hp))"
  proof (cases "latepcache c k")
    case None
    then show ?thesis
      by (simp add: copyToLate_result [OF assms(1)] late_fresh_def)
  next
    case (Some ii)
    with assms(2) have "ii < length hp" by simp
    then have "deref hp ii = Some (hp ! ii)" by (simp add: deref_def)
    with Some show ?thesis
      by (simp add: copyToLate_result [OF assms(1)] late_fresh_def not_less)
  qed
  then show ?thesis
    by (simp add: cache_Add_same deref_append_new)
qed

theorem copyToLate_skip_if_fresh_witness:
  "deref example_heap 1 = Some example_positive
   \<and> Rcode example_positive = RcodeSuccess
   \<and> \<not> late_fresh example_cache example_heap example_key example_now
   \<and> copyToLate example_helpers None example_cache example_heap example_key 1 example_now
       = Inr (example_late_cache, example_late_heap)
   \<and> deref example_late_heap 1 = Some example_positive
   \<and> late_fresh example_late_cache example_late_heap example_key example_now
   \<and> copyToLate example_helpers None example_late_cache example_late_heap example_key 1 example_now
       = Inr (example_late_cache, example_late_heap)"
proof -
  have d: "deref example_late_heap (Suc 0) = Some example_positive"
    by (simp add: deref_def example_late_heap_def example_heap_def)
  have v1: "\<forall>ii. latepcache example_cache example_key = Some ii \<longrightarrow> ii < length example_heap"
    by (simp add: example_latepcache)
  have v2: "\<forall>ii. latepcache example_late_cache example_key = Some ii
              \<longrightarrow> ii < length example_late_heap"
    by (simp add: example_late_cache_def example_late_heap_def example_heap_def)
  have f1: "\<not> late_fresh example_cache example_heap example_key example_now"
    by (simp add: late_fresh_def example_latepcache)
  have f2: "late_fresh example_late_cache example_late_heap example_key example_now"
    by (simp add: late_fresh_def example_late_cache_def example_late_heap_def deref_def
        example_heap_def ttl_def example_positive_def example_now_def)
  have r: "Rcode example_positive = RcodeSuccess"
    by (simp add: example_positive_def RcodeSuccess_def)
  show ?thesis
    using copyToLate_skip_if_fresh [OF example_deref_1 v1, of example_helpers None example_now]
      copyToLate_skip_if_fresh [OF d v2, of example_helpers None example_now]
      example_deref_1 d f1 f2 r example_copyToLate
    by simp
qed

text \<open>
  Claim C8. A call of \<^verbatim>\<open>copyToLate\<close> changes no existing item object, the source item
  included, and no field of the cache but \<^verbatim>\<open>latepcache\<close>. When it writes, the entry under
  \<open>k\<close> points to a new object, a copy of the source item in which only \<^verbatim>\<open>origTTL\<close>
  differs (increased by \<^verbatim>\<open>extrattl\<close> in seconds): the stored-at time, the Rcode, the
  header flags, the sections and the wildcard name are those of the source.
\<close>

theorem copyToLate_frame:
  assumes "copyToLate h victim c hp k i now = Inr (c', hp')"
  shows "(\<forall>p < length hp. deref hp' p = deref hp p)
       \<and> deref hp' i = deref hp i
       \<and> pcache c' = pcache c \<and> ncache c' = ncache c \<and> staleUpTo c' = staleUpTo c
       \<and> extrattl c' = extrattl c \<and> k8sAPI c' = k8sAPI c
       \<and> ((c', hp') \<noteq> (c, hp) \<longrightarrow>
            (\<exists>src newi q. deref hp i = Some src \<and> latepcache c' k = Some q \<and> q \<noteq> i
               \<and> deref hp' q = Some newi
               \<and> newi = src\<lparr> origTTL := origTTL src + Seconds_uint32 h (extrattl c) \<rparr>
               \<and> stored newi = stored src \<and> Rcode newi = Rcode src
               \<and> flag_AD newi = flag_AD src \<and> flag_RA newi = flag_RA src
               \<and> flag_CD newi = flag_CD src
               \<and> answer_section newi = answer_section src
               \<and> authority_section newi = authority_section src
               \<and> additional_section newi = additional_section src
               \<and> wildcard newi = wildcard src))"
proof -
  from copyToLate_Inr_cases [OF assms] show ?thesis
  proof (elim disjE exE conjE)
    assume "c' = c" "hp' = hp"
    then show ?thesis by simp
  next
    fix src
    assume w: "deref hp i = Some src" "Rcode src = RcodeSuccess"
      "c' = c\<lparr> latepcache := cache_Add (latepcache c) victim k (length hp) \<rparr>"
      "hp' = hp @ [src\<lparr> origTTL := origTTL src + Seconds_uint32 h (extrattl c) \<rparr>]"
    have "i < length hp" using w(1) by (rule deref_Some_less)
    then show ?thesis
      using w by (auto simp: deref_append_old deref_append_new cache_Add_same)
  qed
qed

theorem copyToLate_frame_witness:
  "copyToLate example_helpers None example_cache example_heap example_key 1 example_now
     = Inr (example_late_cache, example_late_heap)
   \<and> deref example_late_heap 0 = deref example_heap 0
   \<and> deref example_late_heap 1 = deref example_heap 1
   \<and> pcache example_late_cache = pcache example_cache
   \<and> ncache example_late_cache = ncache example_cache
   \<and> (example_late_cache, example_late_heap) \<noteq> (example_cache, example_heap)
   \<and> latepcache example_late_cache example_key = Some 2
   \<and> deref example_late_heap 2 = Some (example_positive\<lparr> origTTL := 330 \<rparr>)
   \<and> stored (example_positive\<lparr> origTTL := 330 \<rparr>) = stored example_positive"
proof -
  note f = copyToLate_frame [OF example_copyToLate]
  have l: "length example_heap = 2"
    by (simp add: example_heap_def)
  from f have a: "\<forall>p < length example_heap. deref example_late_heap p = deref example_heap p"
    by (rule conjunct1)
  from a l have d0: "deref example_late_heap 0 = deref example_heap 0"
    by simp
  from a l have d1: "deref example_late_heap 1 = deref example_heap 1"
    by simp
  from f have p: "pcache example_late_cache = pcache example_cache"
    by blast
  from f have n: "ncache example_late_cache = ncache example_cache"
    by blast
  have ne: "(example_late_cache, example_late_heap) \<noteq> (example_cache, example_heap)"
    by (simp add: example_late_heap_def)
  have e: "latepcache example_late_cache example_key = Some 2"
    by (simp add: example_late_cache_def)
  have d2: "deref example_late_heap 2 = Some (example_positive\<lparr> origTTL := 330 \<rparr>)"
    by (simp add: example_late_heap_def deref_def example_heap_def)
  have s: "stored (example_positive\<lparr> origTTL := 330 \<rparr>) = stored example_positive"
    by simp
  from example_copyToLate d0 d1 p n ne e d2 s show ?thesis
    by (simp only: One_nat_def simp_thms)
qed

theorem late_cache_only_success_witness:
  "reachable example_helpers example_late_cache example_late_heap
   \<and> latepcache example_late_cache example_key = Some 2
   \<and> (\<exists>itm. deref example_late_heap 2 = Some itm \<and> Rcode itm = RcodeSuccess)"
proof -
  have "reachable example_helpers (New example_backend) example_heap"
    by (rule reachable.created)
  moreover have "latepcache example_cache = latepcache (New example_backend)"
    by (simp add: example_cache_def)
  moreover have "take (length example_heap) example_heap = example_heap"
    by simp
  ultimately have "reachable example_helpers example_cache example_heap"
    by (rule reachable.other)
  then have r: "reachable example_helpers example_late_cache example_late_heap"
    using example_copyToLate by (rule reachable.copied)
  have e: "latepcache example_late_cache example_key = Some 2"
    by (simp add: example_late_cache_def)
  from late_cache_only_success [OF r] e
  have "\<exists>itm. deref example_late_heap 2 = Some itm \<and> Rcode itm = RcodeSuccess"
    unfolding late_all_success_def by blast
  with r e show ?thesis by simp
qed

subsection \<open>TTL clamping and the exception lists\<close>

text \<open>
  Claim C5. \<open>computeTTL(msgTTL, minTTL, maxTTL)\<close> is \<open>clamp(msgTTL, minTTL, maxTTL)\<close>: for
  a floor not above the ceiling it is \<open>max minTTL (min maxTTL msgTTL)\<close>; and
  \<open>computeTTL(1800s, 300s, 3600s) = 1800s\<close>, \<open>computeTTL(299s, 300s, 3600s) = 300s\<close>,
  \<open>computeTTL(299s, 0s, 3600s) = 299s\<close>, \<open>computeTTL(3601s, 300s, 3600s) = 3600s\<close>.
\<close>

theorem computeTTL_clamp:
  "(sint minTTL \<le> sint maxTTL \<longrightarrow>
      sint (computeTTL msgTTL minTTL maxTTL) = max (sint minTTL) (min (sint maxTTL) (sint msgTTL)))
   \<and> computeTTL (1800 * Second) (300 * Second) (3600 * Second) = 1800 * Second
   \<and> computeTTL (299 * Second) (300 * Second) (3600 * Second) = 300 * Second
   \<and> computeTTL (299 * Second) (0 * Second) (3600 * Second) = 299 * Second
   \<and> computeTTL (3601 * Second) (300 * Second) (3600 * Second) = 3600 * Second"
proof -
  have "sint (computeTTL msgTTL minTTL maxTTL) = max (sint minTTL) (min (sint maxTTL) (sint msgTTL))"
    if "sint minTTL \<le> sint maxTTL"
    using that by (simp add: computeTTL_def max_def min_def)
  moreover have "computeTTL (1800 * Second) (300 * Second) (3600 * Second) = 1800 * Second"
    by (simp add: computeTTL_def Second_def)
  moreover have "computeTTL (299 * Second) (300 * Second) (3600 * Second) = 300 * Second"
    by (simp add: computeTTL_def Second_def)
  moreover have "computeTTL (299 * Second) (0 * Second) (3600 * Second) = 299 * Second"
    by (simp add: computeTTL_def Second_def)
  moreover have "computeTTL (3601 * Second) (300 * Second) (3600 * Second) = 3600 * Second"
    by (simp add: computeTTL_def Second_def)
  ultimately show ?thesis
    by blast
qed

theorem computeTTL_clamp_witness:
  "sint (300 * Second) \<le> sint (3600 * Second)
   \<and> sint (computeTTL (299 * Second) (300 * Second) (3600 * Second)) = 300000000000
   \<and> sint (computeTTL (3601 * Second) (300 * Second) (3600 * Second)) = 3600000000000
   \<and> sint (computeTTL (1800 * Second) (300 * Second) (3600 * Second)) = 1800000000000"
proof -
  have le: "sint (300 * Second) \<le> sint (3600 * Second)"
    by (simp add: Second_def)
  from computeTTL_clamp [of "300 * Second" "3600 * Second" "299 * Second"] le
  have a: "sint (computeTTL (299 * Second) (300 * Second) (3600 * Second))
             = max (sint (300 * Second)) (min (sint (3600 * Second)) (sint (299 * Second)))"
    by blast
  from computeTTL_clamp [of "300 * Second" "3600 * Second" "3601 * Second"] le
  have b: "sint (computeTTL (3601 * Second) (300 * Second) (3600 * Second))
             = max (sint (300 * Second)) (min (sint (3600 * Second)) (sint (3601 * Second)))"
    by blast
  from computeTTL_clamp [of "300 * Second" "3600 * Second" "1800 * Second"] le
  have c: "sint (computeTTL (1800 * Second) (300 * Second) (3600 * Second))
             = max (sint (300 * Second)) (min (sint (3600 * Second)) (sint (1800 * Second)))"
    by blast
  show ?thesis
    by (simp only: a b c) (simp add: Second_def)
qed









end
